theory Spec2Isabelle
  imports Main "HOL-Library.Sublist"
begin

section \<open>Python values used by the post generator\<close>

text \<open>
  The program under study is \<^verbatim>\<open>app.py\<close>: a topic is searched on the web
  (\<^verbatim>\<open>search_topic\<close>), the results are summarised by a language model and the summary
  is turned into a post by a second request to the same language model
  (\<^verbatim>\<open>generate_linkedin_post\<close>, through \<^verbatim>\<open>_call_groq_api\<close>); \<^verbatim>\<open>process_topic\<close>
  sequences the stages and turns every exception into text.

  A Python \<^verbatim>\<open>str\<close> is a sequence of Unicode code points, and \<^verbatim>\<open>str.strip\<close> is
  defined on code points, so a string is modelled as the list of its code points.
  \<open>ustr\<close> turns an ASCII literal of the source into such a list.
\<close>

type_synonym pystr = "nat list"

definition ustr :: "string \<Rightarrow> pystr" where
  "ustr s = map of_char s"

text \<open>
  The characters removed by \<^verbatim>\<open>str.strip()\<close> without argument: CPython's
  \<^verbatim>\<open>Py_UNICODE_ISSPACE\<close> (TAB to CR, FS to US, SPACE, NEL, NBSP, OGHAM SPACE MARK,
  EN QUAD to HAIR SPACE, LINE and PARAGRAPH SEPARATOR, NARROW NBSP, MEDIUM
  MATHEMATICAL SPACE, IDEOGRAPHIC SPACE).
\<close>

definition py_isspace :: "nat \<Rightarrow> bool" where
  "py_isspace c \<longleftrightarrow>
     (9 \<le> c \<and> c \<le> 13) \<or> (28 \<le> c \<and> c \<le> 32) \<or> c = 133 \<or> c = 160 \<or> c = 5760 \<or>
     (8192 \<le> c \<and> c \<le> 8202) \<or> c = 8232 \<or> c = 8233 \<or> c = 8239 \<or> c = 8287 \<or> c = 12288"

definition py_strip :: "pystr \<Rightarrow> pystr" where
  "py_strip s = rev (dropWhile py_isspace (rev (dropWhile py_isspace s)))"

text \<open>\<^verbatim>\<open>sep.join(parts)\<close>.\<close>

fun py_join :: "pystr \<Rightarrow> pystr list \<Rightarrow> pystr" where
  "py_join sep [] = []"
| "py_join sep [x] = x"
| "py_join sep (x # y # ys) = x @ sep @ py_join sep (y # ys)"

text \<open>\<^verbatim>\<open>str(i)\<close> of an integer: its decimal digits, with a minus sign when negative.\<close>

fun str_nat :: "nat \<Rightarrow> pystr" where
  "str_nat n = (if n < 10 then [48 + n] else str_nat (n div 10) @ [48 + n mod 10])"

declare str_nat.simps [simp del]

definition str_int :: "int \<Rightarrow> pystr" where
  "str_int i = (if i < 0 then 45 # str_nat (nat (- i)) else str_nat (nat i))"

text \<open>\<^verbatim>\<open>xs[:n]\<close>: the first \<open>n\<close> elements, or all but the last \<open>-n\<close> when \<open>n\<close> is negative.\<close>

definition py_slice_to :: "int \<Rightarrow> 'a list \<Rightarrow> 'a list" where
  "py_slice_to n xs = (if 0 \<le> n then take (nat n) xs else take (nat (int (length xs) + n)) xs)"

text \<open>
  What \<^verbatim>\<open>response.json()\<close> returns: \<^verbatim>\<open>None\<close>, a \<^verbatim>\<open>bool\<close>, an \<^verbatim>\<open>int\<close>, a
  \<^verbatim>\<open>float\<close>, a \<^verbatim>\<open>str\<close>, a \<^verbatim>\<open>list\<close> or a \<^verbatim>\<open>dict\<close> with \<^verbatim>\<open>str\<close> keys. The
  program never computes with a number, so a float is kept as its decimal text. A
  \<^verbatim>\<open>dict\<close> is an association list in insertion order, read with \<open>map_of\<close>.
\<close>

datatype json =
    JNull
  | JBool bool
  | JInt int
  | JFloat pystr
  | JStr pystr
  | JArr "json list"
  | JObj "(pystr \<times> json) list"

type_synonym dict = "(pystr \<times> json) list"

fun type_name :: "json \<Rightarrow> pystr" where
  "type_name JNull = ustr ''NoneType''"
| "type_name (JBool b) = ustr ''bool''"
| "type_name (JInt i) = ustr ''int''"
| "type_name (JFloat f) = ustr ''float''"
| "type_name (JStr s) = ustr ''str''"
| "type_name (JArr xs) = ustr ''list''"
| "type_name (JObj kvs) = ustr ''dict''"

subsection \<open>Exceptions\<close>

text \<open>
  An exception is its class and the text \<^verbatim>\<open>str(e)\<close> gives for it (\<open>str_exn\<close>). The
  classes are those the statements of the program can raise, \<open>TransportError\<close>
  standing for what the HTTP client raises when no response arrives (refused
  connection, timeout), and \<^verbatim>\<open>asyncio.CancelledError\<close>, which is raised inside a
  coroutine at an \<^verbatim>\<open>await\<close> when its task is cancelled. A function that may raise
  returns \<open>exn + 'a\<close>, with \<open>Inl\<close> for the exception. The wording of the messages of
  \<^verbatim>\<open>TypeError\<close>, \<^verbatim>\<open>IndexError\<close> and \<^verbatim>\<open>AttributeError\<close> is CPython 3.11's.
\<close>

datatype exn_class =
    Exception | ValueError | KeyError | IndexError | TypeError | AttributeError
  | JSONDecodeError | TransportError | CancelledError

datatype exn = Exn (class_of: exn_class) (str_exn: pystr)

text \<open>
  Whether a class derives from \<^verbatim>\<open>Exception\<close>, which is what \<^verbatim>\<open>except Exception\<close>
  tests. \<^verbatim>\<open>CancelledError\<close> derives from \<^verbatim>\<open>BaseException\<close> alone (Python 3.8 and
  later); every other class here derives from \<^verbatim>\<open>Exception\<close>.
\<close>

fun is_Exception :: "exn_class \<Rightarrow> bool" where
  "is_Exception CancelledError = False"
| "is_Exception c = True"

text \<open>
  \<^verbatim>\<open>str(KeyError(k))\<close> is \<^verbatim>\<open>repr(k)\<close>; the keys of this program are literals without
  quotes or escapes, whose \<^verbatim>\<open>repr\<close> is the key between single quotes (code point 39).
\<close>

definition quoted :: "pystr \<Rightarrow> pystr" where
  "quoted s = [39] @ s @ [39]"

definition repr_key :: "pystr \<Rightarrow> pystr" where
  "repr_key k = quoted k"

definition not_subscriptable :: "json \<Rightarrow> exn" where
  "not_subscriptable v = Exn TypeError (quoted (type_name v) @ ustr '' object is not subscriptable'')"

definition no_attribute :: "json \<Rightarrow> string \<Rightarrow> exn" where
  "no_attribute v a =
     Exn AttributeError (quoted (type_name v) @ ustr '' object has no attribute '' @ quoted (ustr a))"

subsection \<open>Operations on parsed JSON\<close>

text \<open>\<^verbatim>\<open>k in v\<close> for a \<^verbatim>\<open>str\<close> \<open>k\<close>: key of a dict, element of a list, substring of a str.\<close>

fun py_contains :: "pystr \<Rightarrow> json \<Rightarrow> exn + bool" where
  "py_contains k (JObj kvs) = Inr (map_of kvs k \<noteq> None)"
| "py_contains k (JArr xs) = Inr (List.member xs (JStr k))"
| "py_contains k (JStr s) = Inr (sublist k s)"
| "py_contains k v = Inl (Exn TypeError (ustr ''argument of type '' @ quoted (type_name v) @ ustr '' is not iterable''))"

text \<open>\<^verbatim>\<open>v[k]\<close> for a \<^verbatim>\<open>str\<close> \<open>k\<close>.\<close>

fun py_getitem :: "json \<Rightarrow> pystr \<Rightarrow> exn + json" where
  "py_getitem (JObj kvs) k =
     (case map_of kvs k of None \<Rightarrow> Inl (Exn KeyError (repr_key k)) | Some v \<Rightarrow> Inr v)"
| "py_getitem (JArr xs) k = Inl (Exn TypeError (ustr ''list indices must be integers or slices, not str''))"
| "py_getitem (JStr s) k = Inl (Exn TypeError (ustr ''string indices must be integers, not '' @ quoted (ustr ''str'')))"
| "py_getitem v k = Inl (not_subscriptable v)"

text \<open>\<^verbatim>\<open>v[0]\<close>. The keys of a parsed JSON object are strings, so \<open>0\<close> is never one.\<close>

fun py_getitem0 :: "json \<Rightarrow> exn + json" where
  "py_getitem0 (JArr []) = Inl (Exn IndexError (ustr ''list index out of range''))"
| "py_getitem0 (JArr (x # xs)) = Inr x"
| "py_getitem0 (JStr []) = Inl (Exn IndexError (ustr ''string index out of range''))"
| "py_getitem0 (JStr (c # s)) = Inr (JStr [c])"
| "py_getitem0 (JObj kvs) = Inl (Exn KeyError (ustr ''0''))"
| "py_getitem0 v = Inl (not_subscriptable v)"

text \<open>
  The values \<^verbatim>\<open>for result in v[:n]\<close> iterates over: the elements of a list, the
  characters of a str; a dict does not take a slice as key.
\<close>

fun py_slice_items :: "json \<Rightarrow> int \<Rightarrow> exn + json list" where
  "py_slice_items (JArr xs) n = Inr (py_slice_to n xs)"
| "py_slice_items (JStr s) n = Inr (map (\<lambda>c. JStr [c]) (py_slice_to n s))"
| "py_slice_items (JObj kvs) n = Inl (Exn TypeError (ustr ''unhashable type: '' @ quoted (ustr ''slice'')))"
| "py_slice_items v n = Inl (not_subscriptable v)"

text \<open>\<^verbatim>\<open>v.get(k, d)\<close>: only a dict has the method.\<close>

fun py_get :: "json \<Rightarrow> pystr \<Rightarrow> json \<Rightarrow> exn + json" where
  "py_get (JObj kvs) k d = Inr (case map_of kvs k of None \<Rightarrow> d | Some v \<Rightarrow> v)"
| "py_get v k d = Inl (no_attribute v ''get'')"

text \<open>\<^verbatim>\<open>v.strip()\<close>: only a str has the method.\<close>

fun py_strip_json :: "json \<Rightarrow> exn + pystr" where
  "py_strip_json (JStr s) = Inr (py_strip s)"
| "py_strip_json v = Inl (no_attribute v ''strip'')"

section \<open>The world outside the program\<close>

text \<open>
  The configuration is read from the process environment when the module is loaded:
  \<^verbatim>\<open>os.getenv\<close> gives \<^verbatim>\<open>None\<close> or a string, \<^verbatim>\<open>MAX_SEARCH_RESULTS\<close> is whatever
  integer the variable holds (7 when it is unset), and nothing checks its sign.

  One HTTP exchange either raises at its \<^verbatim>\<open>await\<close> (an error of the client, or the
  cancellation of the task) or delivers a response, of which the
  program reads the status code, the body as text and the body parsed as JSON
  (\<^verbatim>\<open>response.json()\<close>, which raises a \<^verbatim>\<open>JSONDecodeError\<close> with the given message
  when the body is not JSON). What the two providers answer is not the program's
  business: the \<open>network\<close> is any function of what has happened so far and of the
  request. \<open>py_repr\<close> is the text Python's formatting gives for a float, a list or a
  dict, which the program never builds itself.
\<close>

datatype request =
    GET pystr "(pystr \<times> json) list" nat
  | POST pystr "(pystr \<times> pystr) list" json nat

record response =
  status_code :: int
  body_text :: pystr
  body_json :: "pystr + json"

datatype outcome = Fails exn | Replies response

text \<open>
  The trace of a run, in the order in which things happen: the progress notifications
  (the fraction in percent; the tracker is taken not to raise), every entry into one of
  the two client functions with its argument, and every HTTP request sent.
\<close>

datatype event =
    Progress nat pystr
  | Called_search_topic pystr
  | Called_groq_api pystr
  | Sent request

type_synonym trace = "event list"

record env =
  SERPAPI_KEY :: "pystr option"
  GROQ_API_KEY :: "pystr option"
  MAX_SEARCH_RESULTS :: int
  GROQ_MODEL :: pystr
  network :: "trace \<Rightarrow> request \<Rightarrow> outcome"
  py_repr :: "json \<Rightarrow> pystr"

text \<open>\<^verbatim>\<open>not key\<close> for a value of \<^verbatim>\<open>os.getenv\<close>: true of \<^verbatim>\<open>None\<close> and of the empty string.\<close>

definition py_not :: "pystr option \<Rightarrow> bool" where
  "py_not k = (case k of None \<Rightarrow> True | Some s \<Rightarrow> s = [])"

text \<open>A value of \<^verbatim>\<open>os.getenv\<close> as the Python value it is.\<close>

definition getenv_value :: "pystr option \<Rightarrow> json" where
  "getenv_value k = (case k of None \<Rightarrow> JNull | Some s \<Rightarrow> JStr s)"

text \<open>The body of an f-string field \<^verbatim>\<open>{v}\<close>: \<^verbatim>\<open>format(v, '')\<close>, which is \<^verbatim>\<open>str(v)\<close> here.\<close>

definition py_format :: "env \<Rightarrow> json \<Rightarrow> pystr" where
  "py_format env v =
     (case v of
        JStr s \<Rightarrow> s
      | JNull \<Rightarrow> ustr ''None''
      | JBool b \<Rightarrow> (if b then ustr ''True'' else ustr ''False'')
      | JInt i \<Rightarrow> str_int i
      | _ \<Rightarrow> py_repr env v)"

section \<open>The search client\<close>

text \<open>
  The loop of \<^verbatim>\<open>search_topic\<close> over the provider's entries, with the list it appends
  to: each entry gives a dict of exactly \<^verbatim>\<open>title\<close> and \<^verbatim>\<open>snippet\<close>, an absent field
  being the empty string.
\<close>

fun results_loop :: "json list \<Rightarrow> dict list \<Rightarrow> exn + dict list" where
  "results_loop [] search_results = Inr search_results"
| "results_loop (result # rest) search_results =
     (case py_get result (ustr ''title'') (JStr []) of
        Inl e \<Rightarrow> Inl e
      | Inr t \<Rightarrow>
          (case py_get result (ustr ''snippet'') (JStr []) of
             Inl e \<Rightarrow> Inl e
           | Inr sn \<Rightarrow>
               results_loop rest (search_results @ [[(ustr ''title'', t), (ustr ''snippet'', sn)]])))"

text \<open>
  Lines 50 to 58 of \<^verbatim>\<open>search_topic\<close>: the list \<^verbatim>\<open>search_results\<close> built from the parsed
  body \<open>data\<close>, before it is tested for emptiness.
\<close>

definition extract_results :: "int \<Rightarrow> json \<Rightarrow> exn + dict list" where
  "extract_results limit data =
     (case py_contains (ustr ''organic_results'') data of
        Inl e \<Rightarrow> Inl e
      | Inr False \<Rightarrow> Inr []
      | Inr True \<Rightarrow>
          (case py_getitem data (ustr ''organic_results'') of
             Inl e \<Rightarrow> Inl e
           | Inr v \<Rightarrow>
               (case py_slice_items v limit of
                  Inl e \<Rightarrow> Inl e
                | Inr items \<Rightarrow> results_loop items [])))"

definition search_request :: "env \<Rightarrow> pystr \<Rightarrow> request" where
  "search_request env topic =
     GET (ustr ''https://serpapi.com/search'')
       [(ustr ''api_key'', getenv_value (SERPAPI_KEY env)),
        (ustr ''q'', JStr topic),
        (ustr ''google_domain'', JStr (ustr ''google.com'')),
        (ustr ''gl'', JStr (ustr ''us'')),
        (ustr ''hl'', JStr (ustr ''en'')),
        (ustr ''num'', JInt (MAX_SEARCH_RESULTS env))]
       30"

definition no_results :: exn where
  "no_results = Exn Exception (ustr ''No search results found'')"

definition search_topic :: "env \<Rightarrow> pystr \<Rightarrow> trace \<Rightarrow> (exn + dict list) \<times> trace" where
  "search_topic env topic tr0 =
     (let tr = tr0 @ [Called_search_topic topic] in
      if py_not (SERPAPI_KEY env) then (Inl (Exn ValueError (ustr ''SerpAPI key is not configured'')), tr)
      else
        (case network env tr (search_request env topic) of
           Fails e \<Rightarrow> (Inl e, tr @ [Sent (search_request env topic)])
         | Replies response \<Rightarrow>
             (if status_code response \<noteq> 200
              then (Inl (Exn Exception
                      (ustr ''SerpAPI request failed with status code '' @ str_int (status_code response)
                         @ ustr '': '' @ body_text response)),
                    tr @ [Sent (search_request env topic)])
              else
                (case body_json response of
                   Inl m \<Rightarrow> (Inl (Exn JSONDecodeError m), tr @ [Sent (search_request env topic)])
                 | Inr data \<Rightarrow>
                     (case extract_results (MAX_SEARCH_RESULTS env) data of
                        Inl e \<Rightarrow> (Inl e, tr @ [Sent (search_request env topic)])
                      | Inr search_results \<Rightarrow>
                          (if search_results = [] then (Inl no_results, tr @ [Sent (search_request env topic)])
                           else (Inr search_results, tr @ [Sent (search_request env topic)])))))))"

section \<open>The completion client\<close>

text \<open>
  \<^verbatim>\<open>_call_groq_api\<close> (a name cannot start with an underscore here): one POST, then
  \<^verbatim>\<open>response_data["choices"][0]["message"]["content"].strip()\<close>, where each step
  raises on a value of the wrong shape.
\<close>

definition groq_request :: "env \<Rightarrow> pystr \<Rightarrow> request" where
  "groq_request env prompt =
     POST (ustr ''https://api.groq.com/openai/v1/chat/completions'')
       [(ustr ''Authorization'', ustr ''Bearer '' @ py_format env (getenv_value (GROQ_API_KEY env))),
        (ustr ''Content-Type'', ustr ''application/json'')]
       (JObj
         [(ustr ''model'', JStr (GROQ_MODEL env)),
          (ustr ''messages'', JArr [JObj [(ustr ''role'', JStr (ustr ''user'')), (ustr ''content'', JStr prompt)]]),
          (ustr ''temperature'', JFloat (ustr ''0.7'')),
          (ustr ''max_tokens'', JInt 1024)])
       60"

definition message_content :: "json \<Rightarrow> exn + pystr" where
  "message_content response_data =
     (case py_getitem response_data (ustr ''choices'') of
        Inl e \<Rightarrow> Inl e
      | Inr choices \<Rightarrow>
          (case py_getitem0 choices of
             Inl e \<Rightarrow> Inl e
           | Inr choice \<Rightarrow>
               (case py_getitem choice (ustr ''message'') of
                  Inl e \<Rightarrow> Inl e
                | Inr message \<Rightarrow>
                    (case py_getitem message (ustr ''content'') of
                       Inl e \<Rightarrow> Inl e
                     | Inr content \<Rightarrow> py_strip_json content))))"

definition call_groq_api :: "env \<Rightarrow> pystr \<Rightarrow> trace \<Rightarrow> (exn + pystr) \<times> trace" where
  "call_groq_api env prompt tr0 =
     (let tr = tr0 @ [Called_groq_api prompt] in
      if py_not (GROQ_API_KEY env) then (Inl (Exn ValueError (ustr ''GroqCloud API key is not configured'')), tr)
      else
        (case network env tr (groq_request env prompt) of
           Fails e \<Rightarrow> (Inl e, tr @ [Sent (groq_request env prompt)])
         | Replies response \<Rightarrow>
             (if status_code response \<noteq> 200
              then (Inl (Exn Exception
                      (ustr ''GroqCloud API request failed with status code '' @ str_int (status_code response)
                         @ ustr '': '' @ body_text response)),
                    tr @ [Sent (groq_request env prompt)])
              else
                (case body_json response of
                   Inl m \<Rightarrow> (Inl (Exn JSONDecodeError m), tr @ [Sent (groq_request env prompt)])
                 | Inr response_data \<Rightarrow> (message_content response_data, tr @ [Sent (groq_request env prompt)])))))"

section \<open>The two prompts\<close>

text \<open>
  The f-strings of \<^verbatim>\<open>generate_linkedin_post\<close>, character for character: each element
  of a list below is one line of the source, and a character outside ASCII is written
  as its code point. \<open>style_guidelines\<close> is the text of \<^verbatim>\<open>post_prompt\<close> that follows
  the summary.
\<close>

definition summary_prompt :: "pystr \<Rightarrow> pystr \<Rightarrow> pystr" where
  \<open>summary_prompt topic context = concat
      [ustr ''\<newline>'',
       ustr ''    You are a helpful research assistant. Summarize the following search results about "'',
       topic,
       ustr ''" \<newline>'',
       ustr ''    in a clear, comprehensive way that captures the key information. Focus on recent trends, \<newline>'',
       ustr ''    statistics, expert opinions, and noteworthy developments.\<newline>'',
       ustr ''    SEARCH RESULTS:\<newline>'',
       ustr ''    '',
       context,
       ustr ''\<newline>'',
       ustr ''    \<newline>'',
       ustr ''    Summary:\<newline>'',
       ustr ''    '']\<close>

definition style_guidelines :: pystr where
  \<open>style_guidelines = concat
      [ustr ''\<newline>'',
       ustr ''    \<newline>'',
       ustr ''    Follow these style guidelines:\<newline>'',
       ustr ''    '' @ [0x1F9E0] @ ustr '' You are Prerit Singh '' @ [0x2014] @ ustr '' a creative AI enthusiast, builder, and storyteller.\<newline>'',
       ustr ''Your posts feel like:\<newline>'',
       ustr ''Talking to a sharp, chilled-out friend\<newline>'',
       ustr ''A human behind the tech, not a robot explaining tech\<newline>'',
       ustr ''Sharing real-world experiments with excitement, not just dry facts\<newline>'',
       [0x270D] @ [0xFE0F] @ ustr '' Writing Style Rules\<newline>'',
       ustr ''Tone\<newline>'',
       ustr ''Friendly, approachable, and relatable\<newline>'',
       ustr ''Confident but grounded (not boasting)\<newline>'',
       ustr ''Curious and playful (celebrating discoveries)\<newline>'',
       ustr ''Slightly witty and humorous where it fits naturally\<newline>'',
       ustr ''Honest reactions ("even I was shocked", "felt like magic", "saved me weeks")\<newline>'',
       ustr ''Sentence Behavior\<newline>'',
       ustr ''Mix short punchy sentences and slightly longer story sentences\<newline>'',
       ustr ''Avoid complex or heavy words '' @ [0x2014] @ ustr '' talk in everyday English\<newline>'',
       ustr ''Use occasional slang and desi-English flavor naturally ("bhai", "bro", "full time-waste", "no kidding")\<newline>'',
       ustr ''Speak like you're narrating an interesting story to a friend over chai\<newline>'',
       ustr ''Active voice always:\<newline>'',
       ustr ''NOT "It was built by me"\<newline>'',
       ustr ''YES "I built it"\<newline>'',
       ustr ''Emotional Behavior\<newline>'',
       ustr ''Wonder, excitement, playfulness\<newline>'',
       ustr ''Mild self-deprecating humor sometimes ("pizza didn't even show up yet, bro")\<newline>'',
       ustr ''Human imperfection is okay (showing surprise, struggle, trial and error)\<newline>'',
       ustr ''Flow and Formatting\<newline>'',
       ustr ''1. Hook:\<newline>'',
       ustr ''1 or 2 lines\<newline>'',
       ustr ''Must grab attention instantly\<newline>'',
       ustr ''Methods:\<newline>'',
       ustr ''Surprising statement\<newline>'',
       ustr ''Teasing curiosity\<newline>'',
       ustr ''Personal excitement\<newline>'',
       ustr ''Example Hooks:\<newline>'',
       ustr ''"Built a small AI tool '' @ [0x2014] @ ustr '' but it feels like magic."\<newline>'',
       ustr ''"So I was doing some market research... and AI just blew my mind."\<newline>'',
       ustr ''2. Story/Body:\<newline>'',
       ustr ''Tell what you built/tested/discovered\<newline>'',
       ustr ''Keep paras max 1-3 sentences long\<newline>'',
       ustr ''Use arrows ('' @ [0x2192] @ ustr ''), bullets ('' @ [0x2022] @ ustr ''), or short lists to break information\<newline>'',
       ustr ''Include "how you did it" in simple steps\<newline>'',
       ustr ''Highlight the '' @ [0x201C] @ ustr ''magic moment'' @ [0x201D] @ ustr '' (the wow factor)\<newline>'',
       ustr ''Examples of transitional words you use:\<newline>'',
       ustr ''"So I thought '' @ [0x2014] @ ustr ''"\<newline>'',
       ustr ''"Here'' @ [0x2019] @ ustr ''s what happened '' @ [0x2014] @ ustr ''"\<newline>'',
       ustr ''"The process? Surprisingly simple!"\<newline>'',
       ustr ''3. Key Outcomes:\<newline>'',
       ustr ''After explaining, list what the audience will get or learn\<newline>'',
       ustr ''Make it visual with arrows ('' @ [0x2192] @ ustr '') or bullets\<newline>'',
       ustr ''Example:\<newline>'',
       [0x2192] @ ustr '' Upload your meal photo\<newline>'',
       [0x2192] @ ustr '' Instantly get calories and macros\<newline>'',
       [0x2192] @ ustr '' Works even for Indian dishes\<newline>'',
       ustr ''4. Personal Reflection:\<newline>'',
       ustr ''Always include your honest reaction\<newline>'',
       ustr ''Examples:\<newline>'',
       ustr ''"Works surprisingly well (even I was shocked)"\<newline>'',
       ustr ''"AI didn'' @ [0x2019] @ ustr ''t just help '' @ [0x2014] @ ustr '' it crushed it."\<newline>'',
       ustr ''"Honestly, this saved me weeks."\<newline>'',
       ustr ''5. Call-to-Action (CTA):\<newline>'',
       ustr ''Invite conversation or opinions, NOT hard selling\<newline>'',
       ustr ''Example CTAs:\<newline>'',
       ustr ''"Would you use something like this?"\<newline>'',
       ustr ''"Curious to know your thoughts."\<newline>'',
       ustr ''"Hit me up in the comments if you want the prompt!"\<newline>'',
       [0x2705] @ ustr '' CTA tone must be casual and welcoming, not salesy.\<newline>'',
       ustr ''Visual Style\<newline>'',
       ustr ''Break paragraphs after every 1-2 sentences\<newline>'',
       ustr ''Make it breathable and easy to skim\<newline>'',
       ustr ''Use emojis occasionally ('' @ [0x1F355] @ [0x1F680] @ [0x1F525] @ ustr ''), but only if it adds personality\<newline>'',
       ustr ''No heavy decoration. Keep it clean and airy.\<newline>'',
       ustr ''Hashtags\<newline>'',
       ustr ''Only at the end\<newline>'',
       ustr ''5'' @ [0x2013] @ ustr ''7 natural hashtags based on post topic\<newline>'',
       ustr ''Examples:\<newline>'',
       ustr ''#AI #TechInnovation #OpenSource #BrandStrategy #CreativeTech #Innovation\<newline>'',
       [0x1F3AF] @ ustr '' Content Topics That Fit Prerit'' @ [0x2019] @ ustr ''s Style:\<newline>'',
       ustr ''Real AI experiments (even small ones)\<newline>'',
       ustr ''Discovering or comparing AI models/tools\<newline>'',
       ustr ''How AI made everyday work faster/easier/more fun\<newline>'',
       ustr ''Bridging personal life moments (pizza, Zoom chaos) with tech learnings\<newline>'',
       ustr ''Storytelling about solving problems with creativity + AI\<newline>'',
       ustr ''Friendly how-to guides (light style, not heavy teaching)\<newline>'',
       [0x1F525] @ ustr '' Personality Extras (Optional Flavors to Add)\<newline>'',
       [0x2705] @ ustr '' Use small reactions:\<newline>'',
       ustr ''"felt like magic"\<newline>'',
       ustr ''"no kidding"\<newline>'',
       ustr ''"bam '' @ [0x2014] @ ustr '' it'' @ [0x2019] @ ustr ''s done"\<newline>'',
       ustr ''"blew me away"\<newline>'',
       [0x2705] @ ustr '' Use cultural metaphors:\<newline>'',
       ustr ''"full time-waste, bhai"\<newline>'',
       ustr ''"while my chai was still brewing"\<newline>'',
       ustr ''"before the pizza even arrived"\<newline>'',
       [0x2705] @ ustr '' Occasional casual audience references:\<newline>'',
       ustr ''"bro," "bhai," "you know the vibe," "trust me," "hands down"\<newline>'',
       [0x2705] @ ustr '' Fun closing lines:\<newline>'',
       ustr ''"Chalo, now back to building!"\<newline>'',
       ustr ''"Ready to see the magic?"\<newline>'',
       ustr ''"This AI thing'' @ [0x2019] @ ustr ''s just getting started!"\<newline>'',
       [0x2705] @ ustr '' Reminder for AI: The post must feel human, fun, inspiring, and useful.\<newline>'',
       ustr ''It must sound like Prerit Singh talking '' @ [0x2014] @ ustr '' not a formal LinkedIn MBA consultant.\<newline>'',
       ustr ''    \<newline>'',
       ustr ''    LinkedIn Post:\<newline>'',
       ustr ''    '']\<close>

definition post_prompt :: "pystr \<Rightarrow> pystr \<Rightarrow> pystr" where
  \<open>post_prompt topic summary = concat
      [ustr ''\<newline>'',
       ustr ''    You're an expert LinkedIn content writer. Write an engaging LinkedIn post about "'',
       topic,
       ustr ''" \<newline>'',
       ustr ''    based on the following research summary:\<newline>'',
       ustr ''    \<newline>'',
       ustr ''    RESEARCH SUMMARY:\<newline>'',
       ustr ''    '',
       summary,
       style_guidelines]\<close>

section \<open>Generating the post\<close>

text \<open>
  The list comprehension that formats the results: \<^verbatim>\<open>result['title']\<close> and
  \<^verbatim>\<open>result['snippet']\<close> raise \<^verbatim>\<open>KeyError\<close> on a dict without the key.
\<close>

definition dict_getitem :: "dict \<Rightarrow> pystr \<Rightarrow> exn + json" where
  "dict_getitem d k = (case map_of d k of None \<Rightarrow> Inl (Exn KeyError (repr_key k)) | Some v \<Rightarrow> Inr v)"

fun format_results :: "env \<Rightarrow> dict list \<Rightarrow> exn + pystr list" where
  "format_results env [] = Inr []"
| "format_results env (result # rest) =
     (case dict_getitem result (ustr ''title'') of
        Inl e \<Rightarrow> Inl e
      | Inr t \<Rightarrow>
          (case dict_getitem result (ustr ''snippet'') of
             Inl e \<Rightarrow> Inl e
           | Inr sn \<Rightarrow>
               (case format_results env rest of
                  Inl e \<Rightarrow> Inl e
                | Inr blocks \<Rightarrow>
                    Inr ((ustr ''Title: '' @ py_format env t @ ustr ''\<newline>Snippet: '' @ py_format env sn) # blocks))))"

definition build_context :: "env \<Rightarrow> dict list \<Rightarrow> exn + pystr" where
  "build_context env search_results =
     (case format_results env search_results of
        Inl e \<Rightarrow> Inl e
      | Inr blocks \<Rightarrow> Inr (py_join (ustr ''\<newline>\<newline>'') blocks))"

definition generate_linkedin_post ::
    "env \<Rightarrow> pystr \<Rightarrow> dict list \<Rightarrow> trace \<Rightarrow> (exn + pystr \<times> pystr) \<times> trace" where
  "generate_linkedin_post env topic search_results tr =
     (case build_context env search_results of
        Inl e \<Rightarrow> (Inl e, tr)
      | Inr context \<Rightarrow>
          (case call_groq_api env (summary_prompt topic context) tr of
             (Inl e, tr1) \<Rightarrow> (Inl e, tr1)
           | (Inr summary, tr1) \<Rightarrow>
               (case call_groq_api env (post_prompt topic summary) tr1 of
                  (Inl e, tr2) \<Rightarrow> (Inl e, tr2)
                | (Inr linkedin_post, tr2) \<Rightarrow> (Inr (summary, linkedin_post), tr2))))"

section \<open>The orchestrator\<close>

text \<open>
  \<^verbatim>\<open>process_topic\<close>. The test of the topic is outside the \<^verbatim>\<open>try\<close>; everything else is
  inside, and \<^verbatim>\<open>except Exception\<close> catches the exceptions whose class derives from
  \<^verbatim>\<open>Exception\<close>: any other exception leaves \<^verbatim>\<open>process_topic\<close> as it came.
\<close>

definition enter_topic :: pystr where
  "enter_topic = ustr ''Please enter a topic to generate a LinkedIn post.''"

definition error_text :: "exn \<Rightarrow> pystr" where
  "error_text e = ustr ''Error: '' @ str_exn e"

definition process_topic :: "env \<Rightarrow> pystr \<Rightarrow> trace \<Rightarrow> (exn + pystr) \<times> trace" where
  "process_topic env topic tr =
     (if py_strip topic = [] then (Inr enter_topic, tr)
      else
        (case search_topic env topic (tr @ [Progress 10 (ustr ''Starting search...'')]) of
           (Inl e, tr1) \<Rightarrow> (if is_Exception (class_of e) then Inr (error_text e) else Inl e, tr1)
         | (Inr search_results, tr1) \<Rightarrow>
             (case generate_linkedin_post env topic search_results
                     (tr1 @ [Progress 40 (ustr ''Analyzing search results...'')]) of
                (Inl e, tr2) \<Rightarrow> (if is_Exception (class_of e) then Inr (error_text e) else Inl e, tr2)
              | (Inr (summary, post), tr2) \<Rightarrow>
                  (Inr post, tr2 @ [Progress 90 (ustr ''Finalizing post...'')]))))"

section \<open>Reading a trace\<close>

text \<open>
  The prompts \<^verbatim>\<open>_call_groq_api\<close> was called with, and the requests sent to the
  language-model provider (the only POST requests of the program).
\<close>

fun groq_calls :: "trace \<Rightarrow> pystr list" where
  "groq_calls [] = []"
| "groq_calls (Called_groq_api prompt # tr) = prompt # groq_calls tr"
| "groq_calls (ev # tr) = groq_calls tr"

fun is_completion :: "event \<Rightarrow> bool" where
  "is_completion (Sent (POST url headers payload t)) = True"
| "is_completion ev = False"

definition completion_requests :: "trace \<Rightarrow> event list" where
  "completion_requests tr = filter is_completion tr"

text \<open>
  What the body of the loop of \<^verbatim>\<open>search_topic\<close> makes of a provider entry that is a
  dict: its \<^verbatim>\<open>title\<close> and its \<^verbatim>\<open>snippet\<close>, the empty string for an absent one, and
  nothing else.
\<close>

definition normalized :: "dict \<Rightarrow> dict" where
  "normalized entry =
     [(ustr ''title'', case map_of entry (ustr ''title'') of None \<Rightarrow> JStr [] | Some v \<Rightarrow> v),
      (ustr ''snippet'', case map_of entry (ustr ''snippet'') of None \<Rightarrow> JStr [] | Some v \<Rightarrow> v)]"

section \<open>Scripted worlds\<close>

text \<open>
  Concrete worlds on which the program is run below: both keys are configured, the
  search provider gives the outcome \<open>s\<close>, the language-model provider gives \<open>c1\<close> to
  the first request of a run and \<open>c2\<close> to every later one.
\<close>

definition ok :: "json \<Rightarrow> outcome" where
  "ok b = Replies \<lparr>status_code = 200, body_text = [], body_json = Inr b\<rparr>"

fun script_network :: "outcome \<Rightarrow> outcome \<Rightarrow> outcome \<Rightarrow> trace \<Rightarrow> request \<Rightarrow> outcome" where
  "script_network s c1 c2 tr (GET url params t) = s"
| "script_network s c1 c2 tr (POST url headers payload t) = (if completion_requests tr = [] then c1 else c2)"

definition scripted :: "int \<Rightarrow> outcome \<Rightarrow> outcome \<Rightarrow> outcome \<Rightarrow> env" where
  "scripted limit s c1 c2 =
     \<lparr>SERPAPI_KEY = Some (ustr ''serpapi-key''), GROQ_API_KEY = Some (ustr ''groq-key''),
      MAX_SEARCH_RESULTS = limit, GROQ_MODEL = ustr ''meta-llama/llama-4-maverick-17b-128e-instruct'',
      network = script_network s c1 c2, py_repr = (\<lambda>v. ustr ''...'')\<rparr>"

definition completion_body :: "pystr \<Rightarrow> json" where
  "completion_body content =
     JObj [(ustr ''choices'',
            JArr [JObj [(ustr ''message'',
                         JObj [(ustr ''role'', JStr (ustr ''assistant'')), (ustr ''content'', JStr content)])]])]"

text \<open>The scenario of the specification: one search result, a summary, a post.\<close>

definition search_body :: json where
  "search_body =
     JObj [(ustr ''organic_results'',
            JArr [JObj [(ustr ''title'', JStr (ustr ''AI in 2025'')),
                        (ustr ''snippet'', JStr (ustr ''Generative AI adoption grows''))]])]"

definition scenario :: env where
  "scenario =
     scripted 7 (ok search_body)
       (ok (completion_body (ustr ''AI adoption is accelerating.'')))
       (ok (completion_body (ustr ''Bhai, AI is everywhere now! #AI'')))"

definition scenario_results :: "dict list" where
  "scenario_results =
     [[(ustr ''title'', JStr (ustr ''AI in 2025'')), (ustr ''snippet'', JStr (ustr ''Generative AI adoption grows''))]]"

definition scenario_context :: pystr where
  "scenario_context = ustr ''Title: AI in 2025\<newline>Snippet: Generative AI adoption grows''"

text \<open>
  A provider answer with three entries, of which the second has no snippet and the
  third has neither field, read with a limit of two.
\<close>

definition three_entries :: "dict list" where
  "three_entries =
     [[(ustr ''position'', JInt 1), (ustr ''title'', JStr (ustr ''First'')), (ustr ''snippet'', JStr (ustr ''One''))],
      [(ustr ''title'', JStr (ustr ''Second'')), (ustr ''link'', JStr (ustr ''https://example.org''))],
      [(ustr ''position'', JInt 3)]]"

definition three_body :: json where
  "three_body = JObj [(ustr ''search_metadata'', JObj []), (ustr ''organic_results'', JArr (map JObj three_entries))]"

definition server_error :: outcome where
  "server_error =
     Replies \<lparr>status_code = 500, body_text = ustr ''Internal Server Error'', body_json = Inl (ustr ''Expecting value'')\<rparr>"

definition timed_out :: outcome where
  "timed_out = Fails (Exn TransportError (ustr ''timed out''))"


definition no_choices :: outcome where
  "no_choices = ok (JObj [(ustr ''error'', JObj [(ustr ''message'', JStr (ustr ''overloaded''))])])"

definition empty_body :: json where
  "empty_body = JObj [(ustr ''search_metadata'', JObj []), (ustr ''organic_results'', JArr [])]"

definition bare_body :: json where
  "bare_body = JObj [(ustr ''search_metadata'', JObj []), (ustr ''error'', JStr (ustr ''no results''))]"

section \<open>Facts about strings\<close>

lemma ustr_eq_iff [simp]: "ustr s = ustr t \<longleftrightarrow> s = t"
  unfolding ustr_def by (simp add: inj_map_eq_map inj_on_def)

lemma ustr_eq_Nil [simp]: "ustr s = [] \<longleftrightarrow> s = []" "[] = ustr s \<longleftrightarrow> s = []"
  by (auto simp: ustr_def)

lemma ustr_append: "ustr s @ ustr t = ustr (s @ t)" "ustr s @ ustr t @ r = ustr (s @ t) @ r"
  by (simp_all add: ustr_def)

lemma ustr_simps: "ustr [] = []" "ustr (c # s) = of_char c # ustr s"
  by (simp_all add: ustr_def)

lemma py_strip_Nil_iff: "py_strip s = [] \<longleftrightarrow> (\<forall>c\<in>set s. py_isspace c)"
proof
  assume "py_strip s = []"
  then have all: "\<forall>c\<in>set (dropWhile py_isspace s). py_isspace c"
    by (simp add: py_strip_def)
  have "dropWhile py_isspace s = []"
  proof (rule ccontr)
    assume ne: "dropWhile py_isspace s \<noteq> []"
    then have "\<not> py_isspace (hd (dropWhile py_isspace s))" by (rule hd_dropWhile)
    moreover from ne have "hd (dropWhile py_isspace s) \<in> set (dropWhile py_isspace s)" by simp
    ultimately show False using all by blast
  qed
  then show "\<forall>c\<in>set s. py_isspace c" by simp
next
  assume "\<forall>c\<in>set s. py_isspace c"
  then have d: "dropWhile py_isspace s = []" by simp
  show "py_strip s = []" unfolding py_strip_def d by simp
qed

lemma py_strip_id:
  assumes "s \<noteq> []" "\<not> py_isspace (hd s)" "\<not> py_isspace (last s)"
  shows "py_strip s = s"
proof -
  from assms have a: "dropWhile py_isspace s = s" by (cases s) auto
  from assms have "rev s \<noteq> []" "\<not> py_isspace (hd (rev s))" by (simp_all add: hd_rev)
  then have "dropWhile py_isspace (rev s) = rev s" by (cases "rev s") auto
  with a show ?thesis by (simp add: py_strip_def)
qed

lemma strip_topic: "py_strip (ustr ''AI trends 2025'') \<noteq> []"
  by (simp add: py_strip_Nil_iff py_isspace_def ustr_simps)

lemma strip_summary: "py_strip (ustr ''AI adoption is accelerating.'') = ustr ''AI adoption is accelerating.''"
  by (rule py_strip_id) (simp_all add: py_isspace_def ustr_simps)

lemma strip_post: "py_strip (ustr ''Bhai, AI is everywhere now! #AI'') = ustr ''Bhai, AI is everywhere now! #AI''"
  by (rule py_strip_id) (simp_all add: py_isspace_def ustr_simps)

section \<open>Facts about traces\<close>

lemma groq_calls_append [simp]: "groq_calls (tr @ tr') = groq_calls tr @ groq_calls tr'"
  by (induction tr rule: groq_calls.induct) simp_all

lemma completion_requests_append [simp]:
  "completion_requests (tr @ tr') = completion_requests tr @ completion_requests tr'"
  by (simp add: completion_requests_def)

lemma is_completion_groq [simp]: "is_completion (Sent (groq_request env prompt))"
  by (simp add: groq_request_def)

lemma is_completion_search [simp]: "\<not> is_completion (Sent (search_request env topic))"
  by (simp add: search_request_def)

section \<open>Runs in the scripted worlds\<close>

lemma scripted_simps [simp]:
  "SERPAPI_KEY (scripted limit s c1 c2) = Some (ustr ''serpapi-key'')"
  "GROQ_API_KEY (scripted limit s c1 c2) = Some (ustr ''groq-key'')"
  "MAX_SEARCH_RESULTS (scripted limit s c1 c2) = limit"
  "network (scripted limit s c1 c2) tr (search_request env topic) = s"
  "network (scripted limit s c1 c2) tr (groq_request env prompt) = (if completion_requests tr = [] then c1 else c2)"
  by (simp_all add: scripted_def search_request_def groq_request_def)

lemma py_not_Some [simp]: "py_not (Some k) \<longleftrightarrow> k = []"
  by (simp add: py_not_def)

lemma search_scenario:
  "search_topic (scripted 7 (ok search_body) c1 c2) topic tr =
     (Inr scenario_results, tr @ [Called_search_topic topic, Sent (search_request (scripted 7 (ok search_body) c1 c2) topic)])"
  by (simp add: search_topic_def Let_def ok_def search_body_def extract_results_def py_slice_to_def
      scenario_results_def)

lemma context_scenario: "build_context env scenario_results = Inr scenario_context"
  by (simp add: build_context_def scenario_results_def scenario_context_def dict_getitem_def py_format_def
      ustr_append)

lemma message_content_body: "message_content (completion_body content) = Inr (py_strip content)"
  by (simp add: message_content_def completion_body_def)

lemma call_scripted_first:
  "completion_requests tr = [] \<Longrightarrow>
   call_groq_api (scripted limit s (ok (completion_body content)) c2) prompt tr =
     (Inr (py_strip content),
      tr @ [Called_groq_api prompt, Sent (groq_request (scripted limit s (ok (completion_body content)) c2) prompt)])"
  by (simp add: call_groq_api_def Let_def ok_def message_content_body completion_requests_def)

lemma call_scripted_later:
  "completion_requests tr \<noteq> [] \<Longrightarrow>
   call_groq_api (scripted limit s c1 (ok (completion_body content))) prompt tr =
     (Inr (py_strip content),
      tr @ [Called_groq_api prompt, Sent (groq_request (scripted limit s c1 (ok (completion_body content))) prompt)])"
  by (simp add: call_groq_api_def Let_def ok_def message_content_body completion_requests_def)

lemma scenario_run:
  "process_topic scenario (ustr ''AI trends 2025'') [] =
     (Inr (ustr ''Bhai, AI is everywhere now! #AI''),
      [Progress 10 (ustr ''Starting search...''),
       Called_search_topic (ustr ''AI trends 2025''),
       Sent (search_request scenario (ustr ''AI trends 2025'')),
       Progress 40 (ustr ''Analyzing search results...''),
       Called_groq_api (summary_prompt (ustr ''AI trends 2025'') scenario_context),
       Sent (groq_request scenario (summary_prompt (ustr ''AI trends 2025'') scenario_context)),
       Called_groq_api (post_prompt (ustr ''AI trends 2025'') (ustr ''AI adoption is accelerating.'')),
       Sent (groq_request scenario (post_prompt (ustr ''AI trends 2025'') (ustr ''AI adoption is accelerating.''))),
       Progress 90 (ustr ''Finalizing post...'')])"
proof -
  have g: "generate_linkedin_post scenario (ustr ''AI trends 2025'') scenario_results
       [Progress 10 (ustr ''Starting search...''), Called_search_topic (ustr ''AI trends 2025''),
        Sent (search_request scenario (ustr ''AI trends 2025'')), Progress 40 (ustr ''Analyzing search results...'')] =
      (Inr (ustr ''AI adoption is accelerating.'', ustr ''Bhai, AI is everywhere now! #AI''),
       [Progress 10 (ustr ''Starting search...''), Called_search_topic (ustr ''AI trends 2025''),
        Sent (search_request scenario (ustr ''AI trends 2025'')), Progress 40 (ustr ''Analyzing search results...''),
        Called_groq_api (summary_prompt (ustr ''AI trends 2025'') scenario_context),
        Sent (groq_request scenario (summary_prompt (ustr ''AI trends 2025'') scenario_context)),
        Called_groq_api (post_prompt (ustr ''AI trends 2025'') (ustr ''AI adoption is accelerating.'')),
        Sent (groq_request scenario (post_prompt (ustr ''AI trends 2025'') (ustr ''AI adoption is accelerating.'')))])"
    unfolding scenario_def
    by (simp add: generate_linkedin_post_def context_scenario call_scripted_first call_scripted_later
        strip_summary strip_post completion_requests_def)
  show ?thesis
    using g unfolding scenario_def
    by (simp add: process_topic_def strip_topic search_scenario)
qed

section \<open>Facts about the search client\<close>

lemma results_loop_dicts: "results_loop (map JObj es) acc = Inr (acc @ map normalized es)"
  by (induction es arbitrary: acc) (simp_all add: normalized_def)

lemma results_loop_Inr:
  "results_loop items acc = Inr rs \<Longrightarrow> \<exists>es. items = map JObj es \<and> rs = acc @ map normalized es"
proof (induction items arbitrary: acc)
  case Nil
  then show ?case by simp
next
  case (Cons item items)
  show ?case
  proof (cases item)
    case (JObj kvs)
    with Cons.prems have "results_loop items (acc @ [normalized kvs]) = Inr rs"
      by (simp add: normalized_def)
    from Cons.IH [OF this] obtain es where "items = map JObj es" "rs = (acc @ [normalized kvs]) @ map normalized es"
      by blast
    with JObj have "item # items = map JObj (kvs # es) \<and> rs = acc @ map normalized (kvs # es)"
      by simp
    then show ?thesis by (rule exI [of _ "kvs # es"])
  qed (use Cons.prems in simp_all)
qed

lemma results_loop_Inl: "results_loop items acc = Inl e \<Longrightarrow> class_of e = AttributeError"
proof (induction items arbitrary: acc)
  case Nil
  then show ?case by simp
next
  case (Cons item items)
  show ?case
  proof (cases item)
    case (JObj kvs)
    with Cons.prems have "results_loop items (acc @ [normalized kvs]) = Inl e"
      by (simp add: normalized_def)
    then show ?thesis by (rule Cons.IH)
  qed (use Cons.prems in \<open>auto simp: no_attribute_def\<close>)
qed

lemma extract_results_absent:
  "map_of obj (ustr ''organic_results'') = None \<Longrightarrow> extract_results n (JObj obj) = Inr []"
  by (simp add: extract_results_def)

lemma extract_results_Inl:
  "extract_results n data = Inl e \<Longrightarrow> class_of e = TypeError \<or> class_of e = AttributeError"
proof (cases data)
  case (JObj obj)
  assume a: "extract_results n data = Inl e"
  show ?thesis
  proof (cases "map_of obj (ustr ''organic_results'')")
    case None
    with a JObj show ?thesis by (simp add: extract_results_def)
  next
    case (Some v)
    with a JObj have "(case py_slice_items v n of Inl e \<Rightarrow> Inl e | Inr items \<Rightarrow> results_loop items []) = Inl e"
      by (simp add: extract_results_def)
    then show ?thesis
      by (cases v) (auto simp: not_subscriptable_def dest: results_loop_Inl)
  qed
qed (auto simp: extract_results_def not_subscriptable_def split: bool.splits)

lemma extract_results_Inr:
  assumes "extract_results n data = Inr rs" "rs \<noteq> []"
  shows "\<exists>obj xs es. data = JObj obj \<and> map_of obj (ustr ''organic_results'') = Some (JArr xs) \<and>
           py_slice_to n xs = map JObj es \<and> rs = map normalized es"
proof (cases data)
  case (JObj obj)
  show ?thesis
  proof (cases "map_of obj (ustr ''organic_results'')")
    case None
    with assms JObj show ?thesis by (simp add: extract_results_def)
  next
    case (Some v)
    with assms(1) JObj have l: "(case py_slice_items v n of Inl e \<Rightarrow> Inl e | Inr items \<Rightarrow> results_loop items []) = Inr rs"
      by (simp add: extract_results_def)
    show ?thesis
    proof (cases v)
      case (JArr xs)
      with l have "results_loop (py_slice_to n xs) [] = Inr rs" by simp
      from results_loop_Inr [OF this] obtain es where "py_slice_to n xs = map JObj es" "rs = map normalized es"
        by auto
      with JObj Some JArr show ?thesis by blast
    next
      case (JStr str)
      with l have "results_loop (map (\<lambda>c. JStr [c]) (py_slice_to n str)) [] = Inr rs" by simp
      from results_loop_Inr [OF this] obtain es
        where m: "map (\<lambda>c. JStr [c]) (py_slice_to n str) = map JObj es" and r: "rs = map normalized es"
        by auto
      have "es = []"
      proof (cases es)
        case (Cons a list)
        with m show ?thesis by (cases "py_slice_to n str") auto
      qed simp
      with r assms(2) show ?thesis by simp
    qed (use l in simp_all)
  qed
qed (use assms in \<open>auto simp: extract_results_def split: bool.splits\<close>)

lemma search_topic_parsed:
  assumes "\<not> py_not (SERPAPI_KEY env)"
    and "network env (tr @ [Called_search_topic topic]) (search_request env topic) = Replies r"
    and "status_code r = 200"
    and "body_json r = Inr data"
  shows "search_topic env topic tr =
     ((case extract_results (MAX_SEARCH_RESULTS env) data of
         Inl e \<Rightarrow> Inl e
       | Inr rs \<Rightarrow> if rs = [] then Inl no_results else Inr rs),
      tr @ [Called_search_topic topic, Sent (search_request env topic)])"
  using assms by (simp add: search_topic_def Let_def split: sum.splits)

lemma search_topic_Inr:
  assumes "search_topic env topic tr = (Inr rs, tr')"
  shows "\<exists>r data. \<not> py_not (SERPAPI_KEY env) \<and>
           network env (tr @ [Called_search_topic topic]) (search_request env topic) = Replies r \<and>
           status_code r = 200 \<and> body_json r = Inr data \<and>
           extract_results (MAX_SEARCH_RESULTS env) data = Inr rs \<and> rs \<noteq> [] \<and>
           tr' = tr @ [Called_search_topic topic, Sent (search_request env topic)]"
  using assms
  by (auto simp: search_topic_def Let_def split: if_splits outcome.splits sum.splits)

lemma search_topic_trace:
  assumes "search_topic env topic tr = (res, tr')"
  shows "tr' = tr @ [Called_search_topic topic] \<or>
         tr' = tr @ [Called_search_topic topic, Sent (search_request env topic)]"
  using assms
  by (auto simp: search_topic_def Let_def split: if_splits outcome.splits sum.splits)

lemma dict_getitem_normalized [simp]:
  "dict_getitem (normalized entry) (ustr ''title'') =
     Inr (case map_of entry (ustr ''title'') of None \<Rightarrow> JStr [] | Some v \<Rightarrow> v)"
  "dict_getitem (normalized entry) (ustr ''snippet'') =
     Inr (case map_of entry (ustr ''snippet'') of None \<Rightarrow> JStr [] | Some v \<Rightarrow> v)"
  by (simp_all add: dict_getitem_def normalized_def)

lemma format_results_normalized: "\<exists>blocks. format_results env (map normalized es) = Inr blocks"
proof (induction es)
  case Nil
  show ?case by simp
next
  case (Cons entry es)
  then obtain blocks where "format_results env (map normalized es) = Inr blocks" by blast
  then show ?case by simp
qed

lemma build_context_normalized: "\<exists>context. build_context env (map normalized es) = Inr context"
  using format_results_normalized [of env es] by (auto simp: build_context_def)

section \<open>Facts about the prompts and the orchestrator\<close>

lemma sublist_skip: "sublist x r \<Longrightarrow> sublist x (a @ r)"
  by (metis append.assoc sublist_def)

lemma sublist_skip_Cons: "sublist x r \<Longrightarrow> sublist x (c # r)"
  using sublist_skip [of x r "[c]"] by simp

lemma topic_in_summary_prompt: "sublist topic (summary_prompt topic context)"
  unfolding summary_prompt_def by (simp add: sublist_skip)

lemma topic_in_post_prompt: "sublist topic (post_prompt topic summary)"
  unfolding post_prompt_def by (simp add: sublist_skip sublist_skip_Cons)

lemma summary_in_post_prompt: "sublist summary (post_prompt topic summary)"
  unfolding post_prompt_def by (simp add: sublist_skip sublist_skip_Cons)

lemma summary_prompt_not_Nil: "summary_prompt topic context \<noteq> []"
  unfolding summary_prompt_def by simp

lemma post_prompt_not_Nil: "post_prompt topic summary \<noteq> []"
  unfolding post_prompt_def by simp

lemma prompts_differ: "summary_prompt topic context \<noteq> post_prompt topic' summary"
proof
  assume "summary_prompt topic context = post_prompt topic' summary"
  then have "take 9 (summary_prompt topic context) = take 9 (post_prompt topic' summary)" by simp
  then show False
    unfolding summary_prompt_def post_prompt_def by (simp add: ustr_simps)
qed

lemma format_results_strings:
  assumes "\<forall>d\<in>set results. \<exists>t s. map_of d (ustr ''title'') = Some (JStr t) \<and> map_of d (ustr ''snippet'') = Some (JStr s)"
  shows "\<exists>blocks. format_results env results = Inr blocks \<and> format_results env' results = Inr blocks"
  using assms
proof (induction results)
  case Nil
  show ?case by simp
next
  case (Cons d results)
  then obtain blocks where b: "format_results env results = Inr blocks" "format_results env' results = Inr blocks"
    by auto
  from Cons.prems obtain t s where "map_of d (ustr ''title'') = Some (JStr t)" "map_of d (ustr ''snippet'') = Some (JStr s)"
    by auto
  with b show ?case by (simp add: dict_getitem_def py_format_def)
qed

lemma search_topic_context:
  assumes "search_topic env topic tr = (Inr rs, tr')"
  shows "\<exists>context. build_context env' rs = Inr context"
proof -
  from search_topic_Inr [OF assms] obtain data
    where x: "extract_results (MAX_SEARCH_RESULTS env) data = Inr rs" and ne: "rs \<noteq> []"
    by blast
  from extract_results_Inr [OF x ne] obtain es where "rs = map normalized es" by blast
  then show ?thesis by (simp add: build_context_normalized)
qed

lemma call_groq_api_trace:
  assumes "call_groq_api env prompt tr = (res, tr')"
  shows "tr' = tr @ [Called_groq_api prompt] \<or> tr' = tr @ [Called_groq_api prompt, Sent (groq_request env prompt)]"
  using assms
  by (auto simp: call_groq_api_def Let_def split: if_splits outcome.splits sum.splits)

lemma search_topic_calls:
  assumes "search_topic env topic tr = (res, tr')"
  shows "groq_calls tr' = groq_calls tr" "completion_requests tr' = completion_requests tr"
  using search_topic_trace [OF assms] by (auto simp: completion_requests_def)

lemma process_topic_search_raises:
  assumes "py_strip topic \<noteq> []"
    and "search_topic env topic (tr @ [Progress 10 (ustr ''Starting search...'')]) = (Inl e, tr1)"
    and "is_Exception (class_of e)"
  shows "process_topic env topic tr = (Inr (ustr ''Error: '' @ str_exn e), tr1)"
  using assms by (simp add: process_topic_def error_text_def)

lemma process_topic_generate_raises:
  assumes "py_strip topic \<noteq> []"
    and "search_topic env topic (tr @ [Progress 10 (ustr ''Starting search...'')]) = (Inr rs, tr1)"
    and "generate_linkedin_post env topic rs (tr1 @ [Progress 40 (ustr ''Analyzing search results...'')]) = (Inl e, tr2)"
    and "is_Exception (class_of e)"
  shows "process_topic env topic tr = (Inr (ustr ''Error: '' @ str_exn e), tr2)"
  using assms by (simp add: process_topic_def error_text_def)














lemma str_int_500: "str_int 500 = ustr ''500''"
  by (simp add: str_int_def str_nat.simps ustr_simps)

lemma call_groq_api_extends:
  assumes "call_groq_api env prompt tr = (res, tr')"
  shows "\<exists>evs. tr' = tr @ evs \<and> groq_calls evs = [prompt]"
  using call_groq_api_trace [OF assms] by auto

lemma generate_linkedin_post_calls:
  assumes "build_context env rs = Inr context"
    and "generate_linkedin_post env topic rs tr = (res, tr')"
  shows "\<exists>evs. tr' = tr @ evs \<and>
           (groq_calls evs = [summary_prompt topic context] \<or>
            (\<exists>summary tr2.
               call_groq_api env (summary_prompt topic context) tr = (Inr summary, tr2) \<and>
               groq_calls evs = [summary_prompt topic context, post_prompt topic summary]))"
proof -
  obtain r1 tr2 where c1: "call_groq_api env (summary_prompt topic context) tr = (r1, tr2)"
    by (cases "call_groq_api env (summary_prompt topic context) tr")
  from call_groq_api_extends [OF c1] obtain evs1
    where e1: "tr2 = tr @ evs1" "groq_calls evs1 = [summary_prompt topic context]"
    by blast
  show ?thesis
  proof (cases r1)
    case (Inl e)
    with assms c1 have "tr' = tr2" by (simp add: generate_linkedin_post_def)
    with e1 show ?thesis by blast
  next
    case (Inr summary)
    obtain r2 tr3 where c2: "call_groq_api env (post_prompt topic summary) tr2 = (r2, tr3)"
      by (cases "call_groq_api env (post_prompt topic summary) tr2")
    from call_groq_api_extends [OF c2] obtain evs2
      where e2: "tr3 = tr2 @ evs2" "groq_calls evs2 = [post_prompt topic summary]"
      by blast
    from assms c1 c2 Inr have "tr' = tr3"
      by (cases r2) (simp_all add: generate_linkedin_post_def)
    with e1 e2 have "tr' = tr @ (evs1 @ evs2)"
      "groq_calls (evs1 @ evs2) = [summary_prompt topic context, post_prompt topic summary]"
      by simp_all
    with c1 Inr show ?thesis by blast
  qed
qed

section \<open>The claims\<close>


text \<open>
  C4. For a topic that is empty or made of whitespace only, \<^verbatim>\<open>process_topic\<close> returns
  the fixed invitation to enter a topic and the trace is unchanged: neither
  \<^verbatim>\<open>search_topic\<close> nor \<^verbatim>\<open>_call_groq_api\<close> is called and no request is sent.
\<close>

theorem empty_topic_short_circuit:
  assumes "\<forall>c\<in>set topic. py_isspace c"
  shows "process_topic env topic tr = (Inr (ustr ''Please enter a topic to generate a LinkedIn post.''), tr)"
  using assms by (simp add: process_topic_def py_strip_Nil_iff enter_topic_def)

theorem empty_topic_short_circuit_witness:
  "py_isspace 32 \<and> py_isspace 9 \<and> py_isspace 10 \<and> py_isspace 160 \<and>
   process_topic scenario [32, 9, 10, 160] [] =
     (Inr (ustr ''Please enter a topic to generate a LinkedIn post.''), [])"
proof -
  have h: "\<forall>c\<in>set [32, 9, 10, 160]. py_isspace c" by (simp add: py_isspace_def)
  from h empty_topic_short_circuit [OF h, of scenario "[]"] show ?thesis by simp
qed

text \<open>
  C5. When the search key is configured, the provider answers with status 200 and a
  JSON object whose \<^verbatim>\<open>organic_results\<close> is a non-empty list, the first
  \<^verbatim>\<open>MAX_SEARCH_RESULTS\<close> entries of the list are objects, and the configured maximum
  is positive (the input constraint of the specification), \<^verbatim>\<open>search_topic\<close> returns a
  non-empty list, no longer than \<^verbatim>\<open>MAX_SEARCH_RESULTS\<close>, made of the normalisations
  of these first entries in the provider's order.
\<close>

theorem search_topic_shape:
  assumes "\<not> py_not (SERPAPI_KEY env)"
    and "network env (tr @ [Called_search_topic topic]) (search_request env topic) = Replies r"
    and "status_code r = 200"
    and "body_json r = Inr (JObj obj)"
    and "map_of obj (ustr ''organic_results'') = Some (JArr xs)"
    and "xs \<noteq> []"
    and "0 < MAX_SEARCH_RESULTS env"
    and "take (nat (MAX_SEARCH_RESULTS env)) xs = map JObj entries"
  shows "\<exists>rs. fst (search_topic env topic tr) = Inr rs \<and> rs \<noteq> [] \<and>
           int (length rs) \<le> MAX_SEARCH_RESULTS env \<and>
           rs = map normalized entries"
proof -
  from assms(7) have sl: "py_slice_to (MAX_SEARCH_RESULTS env) xs = take (nat (MAX_SEARCH_RESULTS env)) xs"
    by (simp add: py_slice_to_def)
  from assms(6,7) have "take (nat (MAX_SEARCH_RESULTS env)) xs \<noteq> []" by simp
  with assms(8) have ne: "map normalized entries \<noteq> []" by auto
  have "length entries = length (take (nat (MAX_SEARCH_RESULTS env)) xs)"
    unfolding assms(8) by simp
  with assms(7) have le: "int (length (map normalized entries)) \<le> MAX_SEARCH_RESULTS env" by simp
  have "extract_results (MAX_SEARCH_RESULTS env) (JObj obj) = Inr (map normalized entries)"
    using assms(5,8) sl by (simp add: extract_results_def results_loop_dicts)
  with search_topic_parsed [OF assms(1-4)] ne have "fst (search_topic env topic tr) = Inr (map normalized entries)"
    by simp
  with ne le show ?thesis by blast
qed

theorem search_topic_shape_witness:
  "fst (search_topic (scripted 2 (ok three_body) timed_out timed_out) (ustr ''AI trends 2025'') []) =
     Inr [[(ustr ''title'', JStr (ustr ''First'')), (ustr ''snippet'', JStr (ustr ''One''))],
          [(ustr ''title'', JStr (ustr ''Second'')), (ustr ''snippet'', JStr [])]]"
proof -
  let ?env = "scripted 2 (ok three_body) timed_out timed_out"
  have "\<exists>rs. fst (search_topic ?env (ustr ''AI trends 2025'') []) = Inr rs \<and> rs \<noteq> [] \<and>
           int (length rs) \<le> MAX_SEARCH_RESULTS ?env \<and>
           rs = map normalized (take 2 three_entries)"
    by (rule search_topic_shape [where r = "\<lparr>status_code = 200, body_text = [], body_json = Inr three_body\<rparr>"
          and obj = "[(ustr ''search_metadata'', JObj []), (ustr ''organic_results'', JArr (map JObj three_entries))]"
          and xs = "map JObj three_entries"])
       (simp_all add: ok_def three_body_def three_entries_def)
  then show ?thesis
    by (simp add: three_entries_def normalized_def)
qed

text \<open>
  C6. When the provider's answer is parsed (key configured, status 200, a JSON body),
  \<^verbatim>\<open>search_topic\<close> raises \<open>No search results found\<close> exactly when the list built from
  the body is empty; it does so when \<^verbatim>\<open>organic_results\<close> is an empty list and when the
  body has no such field; and whenever the list built is not empty, that list is what
  it returns.
\<close>

theorem no_results_exactly_when_empty:
  assumes "\<not> py_not (SERPAPI_KEY env)"
    and "network env (tr @ [Called_search_topic topic]) (search_request env topic) = Replies r"
    and "status_code r = 200"
    and "body_json r = Inr data"
  shows "(fst (search_topic env topic tr) = Inl (Exn Exception (ustr ''No search results found''))
            \<longleftrightarrow> extract_results (MAX_SEARCH_RESULTS env) data = Inr [])
       \<and> (\<forall>obj. data = JObj obj \<and> map_of obj (ustr ''organic_results'') = Some (JArr [])
            \<longrightarrow> fst (search_topic env topic tr) = Inl (Exn Exception (ustr ''No search results found'')))
       \<and> (\<forall>obj. data = JObj obj \<and> map_of obj (ustr ''organic_results'') = None
            \<longrightarrow> fst (search_topic env topic tr) = Inl (Exn Exception (ustr ''No search results found'')))
       \<and> (\<forall>rs. extract_results (MAX_SEARCH_RESULTS env) data = Inr rs \<and> rs \<noteq> []
            \<longrightarrow> fst (search_topic env topic tr) = Inr rs)"
proof -
  let ?x = "extract_results (MAX_SEARCH_RESULTS env) data"
  have st: "fst (search_topic env topic tr) =
      (case ?x of Inl e \<Rightarrow> Inl e | Inr rs \<Rightarrow> if rs = [] then Inl no_results else Inr rs)"
    using search_topic_parsed [OF assms] by simp
  have a: "fst (search_topic env topic tr) = Inl no_results \<longleftrightarrow> ?x = Inr []"
  proof (cases ?x)
    case (Inl e)
    then have "class_of e \<noteq> Exception" by (auto dest: extract_results_Inl)
    then have "e \<noteq> no_results" by (auto simp: no_results_def)
    with Inl st show ?thesis by simp
  next
    case (Inr rs)
    with st show ?thesis by simp
  qed
  have b: "fst (search_topic env topic tr) = Inl no_results"
    if "data = JObj obj" "map_of obj (ustr ''organic_results'') = Some (JArr [])" for obj
  proof -
    from that have "?x = Inr []" by (simp add: extract_results_def py_slice_to_def)
    with a show ?thesis by simp
  qed
  have c: "fst (search_topic env topic tr) = Inl no_results"
    if "data = JObj obj" "map_of obj (ustr ''organic_results'') = None" for obj
  proof -
    from that have "?x = Inr []" by (simp add: extract_results_absent)
    with a show ?thesis by simp
  qed
  have d: "fst (search_topic env topic tr) = Inr rs" if "?x = Inr rs" "rs \<noteq> []" for rs
    using that st by simp
  from a b c d show ?thesis unfolding no_results_def by blast
qed

theorem no_results_exactly_when_empty_witness:
  "fst (search_topic (scripted 7 (ok empty_body) timed_out timed_out) (ustr ''AI trends 2025'') []) =
     Inl (Exn Exception (ustr ''No search results found''))
   \<and> fst (search_topic (scripted 7 (ok bare_body) timed_out timed_out) (ustr ''AI trends 2025'') []) =
     Inl (Exn Exception (ustr ''No search results found''))
   \<and> extract_results 7 search_body = Inr scenario_results
   \<and> fst (search_topic (scripted 7 (ok search_body) timed_out timed_out) (ustr ''AI trends 2025'') []) =
     Inr scenario_results"
proof -
  let ?t = "ustr ''AI trends 2025''"
  have x: "extract_results 7 search_body = Inr scenario_results"
    by (simp add: extract_results_def search_body_def scenario_results_def py_slice_to_def)
  have 1: "fst (search_topic (scripted 7 (ok empty_body) timed_out timed_out) ?t []) =
      Inl (Exn Exception (ustr ''No search results found''))"
    using no_results_exactly_when_empty [of "scripted 7 (ok empty_body) timed_out timed_out" "[]" ?t
        "\<lparr>status_code = 200, body_text = [], body_json = Inr empty_body\<rparr>" empty_body]
    by (simp add: ok_def empty_body_def)
  have 2: "fst (search_topic (scripted 7 (ok bare_body) timed_out timed_out) ?t []) =
      Inl (Exn Exception (ustr ''No search results found''))"
    using no_results_exactly_when_empty [of "scripted 7 (ok bare_body) timed_out timed_out" "[]" ?t
        "\<lparr>status_code = 200, body_text = [], body_json = Inr bare_body\<rparr>" bare_body]
    by (simp add: ok_def bare_body_def)
  have 3: "fst (search_topic (scripted 7 (ok search_body) timed_out timed_out) ?t []) = Inr scenario_results"
    using no_results_exactly_when_empty [of "scripted 7 (ok search_body) timed_out timed_out" "[]" ?t
        "\<lparr>status_code = 200, body_text = [], body_json = Inr search_body\<rparr>" search_body] x
    by (simp add: ok_def scenario_results_def)
  from 1 2 x 3 show ?thesis by simp
qed

text \<open>
  C10. Whenever \<^verbatim>\<open>search_topic\<close> returns a list, the provider answered with an object
  whose \<^verbatim>\<open>organic_results\<close> is a list, and the list returned is the normalisation of
  the entries kept by the slice: each element has exactly the keys \<^verbatim>\<open>title\<close> and
  \<^verbatim>\<open>snippet\<close>, in this order, with the provider's value or the empty string, and
  nothing else of the entry. On such a list the context construction of
  \<^verbatim>\<open>generate_linkedin_post\<close> does not raise.
\<close>

theorem search_results_fields:
  assumes "search_topic env topic tr = (Inr rs, tr')"
  shows "(\<exists>r obj xs entries.
            network env (tr @ [Called_search_topic topic]) (search_request env topic) = Replies r \<and>
            body_json r = Inr (JObj obj) \<and>
            map_of obj (ustr ''organic_results'') = Some (JArr xs) \<and>
            py_slice_to (MAX_SEARCH_RESULTS env) xs = map JObj entries \<and>
            rs = map (\<lambda>entry.
                   [(ustr ''title'', case map_of entry (ustr ''title'') of None \<Rightarrow> JStr [] | Some v \<Rightarrow> v),
                    (ustr ''snippet'', case map_of entry (ustr ''snippet'') of None \<Rightarrow> JStr [] | Some v \<Rightarrow> v)])
                 entries)
       \<and> (\<forall>d\<in>set rs. map fst d = [ustr ''title'', ustr ''snippet''])
       \<and> (\<exists>context. build_context env' rs = Inr context)"
proof -
  from search_topic_Inr [OF assms] obtain r data
    where n: "network env (tr @ [Called_search_topic topic]) (search_request env topic) = Replies r"
      and b: "body_json r = Inr data"
      and x: "extract_results (MAX_SEARCH_RESULTS env) data = Inr rs" and ne: "rs \<noteq> []"
    by blast
  from extract_results_Inr [OF x ne] obtain obj xs es
    where d: "data = JObj obj" and m: "map_of obj (ustr ''organic_results'') = Some (JArr xs)"
      and sl: "py_slice_to (MAX_SEARCH_RESULTS env) xs = map JObj es" and rs: "rs = map normalized es"
    by blast
  have nf: "normalized = (\<lambda>entry.
                   [(ustr ''title'', case map_of entry (ustr ''title'') of None \<Rightarrow> JStr [] | Some v \<Rightarrow> v),
                    (ustr ''snippet'', case map_of entry (ustr ''snippet'') of None \<Rightarrow> JStr [] | Some v \<Rightarrow> v)])"
    by (rule ext) (simp add: normalized_def)
  have 1: "\<exists>r obj xs entries.
            network env (tr @ [Called_search_topic topic]) (search_request env topic) = Replies r \<and>
            body_json r = Inr (JObj obj) \<and>
            map_of obj (ustr ''organic_results'') = Some (JArr xs) \<and>
            py_slice_to (MAX_SEARCH_RESULTS env) xs = map JObj entries \<and>
            rs = map (\<lambda>entry.
                   [(ustr ''title'', case map_of entry (ustr ''title'') of None \<Rightarrow> JStr [] | Some v \<Rightarrow> v),
                    (ustr ''snippet'', case map_of entry (ustr ''snippet'') of None \<Rightarrow> JStr [] | Some v \<Rightarrow> v)])
                 entries"
    using n b d m sl rs unfolding nf by blast
  have 2: "\<forall>d\<in>set rs. map fst d = [ustr ''title'', ustr ''snippet'']"
    unfolding rs by (auto simp: normalized_def)
  have 3: "\<exists>context. build_context env' rs = Inr context"
    unfolding rs by (rule build_context_normalized)
  from 1 2 3 show ?thesis by (intro conjI)
qed

theorem search_results_fields_witness:
  "search_topic (scripted 7 (ok three_body) timed_out timed_out) (ustr ''AI trends 2025'') [] =
     (Inr [[(ustr ''title'', JStr (ustr ''First'')), (ustr ''snippet'', JStr (ustr ''One''))],
           [(ustr ''title'', JStr (ustr ''Second'')), (ustr ''snippet'', JStr [])],
           [(ustr ''title'', JStr []), (ustr ''snippet'', JStr [])]],
      [Called_search_topic (ustr ''AI trends 2025''),
       Sent (search_request (scripted 7 (ok three_body) timed_out timed_out) (ustr ''AI trends 2025''))])
   \<and> (\<exists>context.
        build_context scenario
          [[(ustr ''title'', JStr (ustr ''First'')), (ustr ''snippet'', JStr (ustr ''One''))],
           [(ustr ''title'', JStr (ustr ''Second'')), (ustr ''snippet'', JStr [])],
           [(ustr ''title'', JStr []), (ustr ''snippet'', JStr [])]] = Inr context)"
proof -
  let ?env = "scripted 7 (ok three_body) timed_out timed_out"
  let ?rs = "[[(ustr ''title'', JStr (ustr ''First'')), (ustr ''snippet'', JStr (ustr ''One''))],
           [(ustr ''title'', JStr (ustr ''Second'')), (ustr ''snippet'', JStr [])],
           [(ustr ''title'', JStr []), (ustr ''snippet'', JStr [])]]"
  have run: "search_topic ?env (ustr ''AI trends 2025'') [] =
      (Inr ?rs, [Called_search_topic (ustr ''AI trends 2025''), Sent (search_request ?env (ustr ''AI trends 2025''))])"
    by (simp add: search_topic_def Let_def ok_def three_body_def three_entries_def extract_results_def
        py_slice_to_def)
  from search_results_fields [OF run, of scenario] have "\<exists>context. build_context scenario ?rs = Inr context"
    by (elim conjE)
  with run show ?thesis by (rule conjI)
qed

text \<open>
  C7. The two prompts are functions of their arguments alone. The summary prompt
  contains the topic and is never empty; the post prompt contains the topic and the
  summary and is never empty. On results whose \<^verbatim>\<open>title\<close> and \<^verbatim>\<open>snippet\<close> are strings
  the construction of the context does not raise and gives the same text whatever the
  rest of the world is.
\<close>

theorem prompts_embed_inputs:
  "summary_prompt topic context \<noteq> [] \<and> sublist topic (summary_prompt topic context)
   \<and> post_prompt topic summary \<noteq> [] \<and> sublist topic (post_prompt topic summary)
   \<and> sublist summary (post_prompt topic summary)
   \<and> summary_prompt [] [] \<noteq> [] \<and> post_prompt [] [] \<noteq> []
   \<and> ((\<forall>d\<in>set results. \<exists>t s. map_of d (ustr ''title'') = Some (JStr t) \<and> map_of d (ustr ''snippet'') = Some (JStr s))
        \<longrightarrow> (\<exists>c. build_context env results = Inr c \<and> build_context env' results = Inr c))"
proof -
  have "\<exists>c. build_context env results = Inr c \<and> build_context env' results = Inr c"
    if "\<forall>d\<in>set results. \<exists>t s. map_of d (ustr ''title'') = Some (JStr t) \<and> map_of d (ustr ''snippet'') = Some (JStr s)"
    using format_results_strings [OF that, of env env'] by (auto simp: build_context_def)
  then show ?thesis
    by (simp add: summary_prompt_not_Nil post_prompt_not_Nil topic_in_summary_prompt topic_in_post_prompt
        summary_in_post_prompt)
qed

theorem prompts_embed_inputs_witness:
  "build_context scenario scenario_results = Inr scenario_context
   \<and> build_context (scripted 2 server_error timed_out timed_out) scenario_results = Inr scenario_context
   \<and> sublist (ustr ''AI trends 2025'') (summary_prompt (ustr ''AI trends 2025'') scenario_context)
   \<and> sublist (ustr ''AI adoption is accelerating.'')
        (post_prompt (ustr ''AI trends 2025'') (ustr ''AI adoption is accelerating.''))"
proof -
  have "\<forall>d\<in>set scenario_results.
          \<exists>t s. map_of d (ustr ''title'') = Some (JStr t) \<and> map_of d (ustr ''snippet'') = Some (JStr s)"
    by (simp add: scenario_results_def)
  with prompts_embed_inputs [of "ustr ''AI trends 2025''" scenario_context "ustr ''AI adoption is accelerating.''"
      scenario_results scenario "scripted 2 server_error timed_out timed_out"]
  show ?thesis by (auto simp: context_scenario)
qed

text \<open>
  C8. When the search provider answers with a status other than 200, \<^verbatim>\<open>process_topic\<close>
  returns \<open>Error: SerpAPI request failed with status code\<close>, the status code, a colon
  and the body: a text that begins with \<open>Error: \<close> and contains the status code. The
  run ends after the search request: \<^verbatim>\<open>_call_groq_api\<close> is not called and nothing is
  sent to the language-model provider.
\<close>

theorem search_upstream_failure:
  assumes "py_strip topic \<noteq> []"
    and "\<not> py_not (SERPAPI_KEY env)"
    and "network env (tr @ [Progress 10 (ustr ''Starting search...''), Called_search_topic topic])
           (search_request env topic) = Replies r"
    and "status_code r \<noteq> 200"
  shows "process_topic env topic tr =
           (Inr (ustr ''Error: '' @ ustr ''SerpAPI request failed with status code '' @ str_int (status_code r)
                   @ ustr '': '' @ body_text r),
            tr @ [Progress 10 (ustr ''Starting search...''), Called_search_topic topic, Sent (search_request env topic)])
       \<and> prefix (ustr ''Error: '') (projr (fst (process_topic env topic tr)))
       \<and> sublist (str_int (status_code r)) (projr (fst (process_topic env topic tr)))
       \<and> groq_calls (snd (process_topic env topic tr)) = groq_calls tr
       \<and> completion_requests (snd (process_topic env topic tr)) = completion_requests tr"
proof -
  have s: "search_topic env topic (tr @ [Progress 10 (ustr ''Starting search...'')]) =
      (Inl (Exn Exception (ustr ''SerpAPI request failed with status code '' @ str_int (status_code r)
              @ ustr '': '' @ body_text r)),
       tr @ [Progress 10 (ustr ''Starting search...''), Called_search_topic topic, Sent (search_request env topic)])"
    using assms(2-4) by (simp add: search_topic_def Let_def)
  have p: "process_topic env topic tr =
           (Inr (ustr ''Error: '' @ ustr ''SerpAPI request failed with status code '' @ str_int (status_code r)
                   @ ustr '': '' @ body_text r),
            tr @ [Progress 10 (ustr ''Starting search...''), Called_search_topic topic, Sent (search_request env topic)])"
    using process_topic_search_raises [OF assms(1) s] by simp
  show ?thesis
    unfolding p by (simp add: sublist_skip completion_requests_def)
qed

theorem search_upstream_failure_witness:
  "process_topic (scripted 7 server_error timed_out timed_out) (ustr ''AI trends 2025'') [] =
     (Inr (ustr ''Error: SerpAPI request failed with status code 500: Internal Server Error''),
      [Progress 10 (ustr ''Starting search...''), Called_search_topic (ustr ''AI trends 2025''),
       Sent (search_request (scripted 7 server_error timed_out timed_out) (ustr ''AI trends 2025''))])
   \<and> groq_calls (snd (process_topic (scripted 7 server_error timed_out timed_out) (ustr ''AI trends 2025'') [])) = []"
proof -
  let ?env = "scripted 7 server_error timed_out timed_out"
  have "process_topic ?env (ustr ''AI trends 2025'') [] =
           (Inr (ustr ''Error: '' @ ustr ''SerpAPI request failed with status code '' @ str_int 500
                   @ ustr '': '' @ ustr ''Internal Server Error''),
            [] @ [Progress 10 (ustr ''Starting search...''), Called_search_topic (ustr ''AI trends 2025''),
                  Sent (search_request ?env (ustr ''AI trends 2025''))])
       \<and> groq_calls (snd (process_topic ?env (ustr ''AI trends 2025'') [])) = groq_calls []"
    using search_upstream_failure [of "ustr ''AI trends 2025''" ?env "[]"
        "\<lparr>status_code = 500, body_text = ustr ''Internal Server Error'', body_json = Inl (ustr ''Expecting value'')\<rparr>"]
    by (simp add: strip_topic server_error_def)
  then show ?thesis
    by (simp add: str_int_500 ustr_append)
qed

text \<open>
  C9. When the search has returned and the language-model provider answers the first
  request with status 200 and a JSON object without \<^verbatim>\<open>choices\<close>, \<^verbatim>\<open>process_topic\<close>
  returns \<open>Error: 'choices'\<close> (the text of the \<^verbatim>\<open>KeyError\<close>), a text that begins with
  \<open>Error: \<close>. \<^verbatim>\<open>_call_groq_api\<close> has been called once in the run, with the summary
  prompt, one request has been sent for it, and the summary prompt is not a post
  prompt: no post prompt is sent.
\<close>

theorem malformed_completion:
  assumes "py_strip topic \<noteq> []"
    and "search_topic env topic (tr @ [Progress 10 (ustr ''Starting search...'')]) = (Inr rs, tr1)"
    and "build_context env rs = Inr context"
    and "\<not> py_not (GROQ_API_KEY env)"
    and "network env (tr1 @ [Progress 40 (ustr ''Analyzing search results...''),
                             Called_groq_api (summary_prompt topic context)])
           (groq_request env (summary_prompt topic context)) = Replies r"
    and "status_code r = 200"
    and "body_json r = Inr (JObj obj)"
    and "map_of obj (ustr ''choices'') = None"
  shows "process_topic env topic tr =
           (Inr (ustr ''Error: '' @ quoted (ustr ''choices'')),
            tr @ [Progress 10 (ustr ''Starting search...''), Called_search_topic topic,
                  Sent (search_request env topic),
                  Progress 40 (ustr ''Analyzing search results...''),
                  Called_groq_api (summary_prompt topic context),
                  Sent (groq_request env (summary_prompt topic context))])
       \<and> prefix (ustr ''Error: '') (projr (fst (process_topic env topic tr)))
       \<and> groq_calls (snd (process_topic env topic tr)) = groq_calls tr @ [summary_prompt topic context]
       \<and> completion_requests (snd (process_topic env topic tr)) =
           completion_requests tr @ [Sent (groq_request env (summary_prompt topic context))]
       \<and> (\<forall>summary. summary_prompt topic context \<noteq> post_prompt topic summary)"
proof -
  let ?sp = "summary_prompt topic context"
  from search_topic_Inr [OF assms(2)]
  have tr1: "tr1 = tr @ [Progress 10 (ustr ''Starting search...''), Called_search_topic topic,
                         Sent (search_request env topic)]"
    by auto
  have c: "call_groq_api env ?sp (tr1 @ [Progress 40 (ustr ''Analyzing search results...'')]) =
      (Inl (Exn KeyError (quoted (ustr ''choices''))),
       tr1 @ [Progress 40 (ustr ''Analyzing search results...''), Called_groq_api ?sp, Sent (groq_request env ?sp)])"
    using assms(4-8) by (simp add: call_groq_api_def Let_def message_content_def repr_key_def)
  have g: "generate_linkedin_post env topic rs (tr1 @ [Progress 40 (ustr ''Analyzing search results...'')]) =
      (Inl (Exn KeyError (quoted (ustr ''choices''))),
       tr1 @ [Progress 40 (ustr ''Analyzing search results...''), Called_groq_api ?sp, Sent (groq_request env ?sp)])"
    by (simp add: generate_linkedin_post_def assms(3) c)
  have p: "process_topic env topic tr =
           (Inr (ustr ''Error: '' @ quoted (ustr ''choices'')),
            tr @ [Progress 10 (ustr ''Starting search...''), Called_search_topic topic,
                  Sent (search_request env topic),
                  Progress 40 (ustr ''Analyzing search results...''),
                  Called_groq_api ?sp, Sent (groq_request env ?sp)])"
    using process_topic_generate_raises [OF assms(1,2) g] by (simp add: tr1)
  show ?thesis
    unfolding p by (simp add: completion_requests_def prompts_differ)
qed

theorem malformed_completion_witness:
  "process_topic (scripted 7 (ok search_body) no_choices no_choices) (ustr ''AI trends 2025'') [] =
     (Inr (ustr ''Error: '' @ [39] @ ustr ''choices'' @ [39]),
      [Progress 10 (ustr ''Starting search...''), Called_search_topic (ustr ''AI trends 2025''),
       Sent (search_request (scripted 7 (ok search_body) no_choices no_choices) (ustr ''AI trends 2025'')),
       Progress 40 (ustr ''Analyzing search results...''),
       Called_groq_api (summary_prompt (ustr ''AI trends 2025'') scenario_context),
       Sent (groq_request (scripted 7 (ok search_body) no_choices no_choices)
               (summary_prompt (ustr ''AI trends 2025'') scenario_context))])"
proof -
  let ?env = "scripted 7 (ok search_body) no_choices no_choices"
  let ?t = "ustr ''AI trends 2025''"
  let ?obj = "[(ustr ''error'', JObj [(ustr ''message'', JStr (ustr ''overloaded''))])]"
  let ?r = "\<lparr>status_code = 200, body_text = [], body_json = Inr (JObj ?obj)\<rparr>"
  have s: "search_topic ?env ?t ([] @ [Progress 10 (ustr ''Starting search...'')]) =
      (Inr scenario_results,
       [Progress 10 (ustr ''Starting search...''), Called_search_topic ?t, Sent (search_request ?env ?t)])"
    by (simp add: search_scenario)
  have k: "\<not> py_not (GROQ_API_KEY ?env)" by simp
  have n: "network ?env
             ([Progress 10 (ustr ''Starting search...''), Called_search_topic ?t, Sent (search_request ?env ?t)]
                @ [Progress 40 (ustr ''Analyzing search results...''),
                   Called_groq_api (summary_prompt ?t scenario_context)])
             (groq_request ?env (summary_prompt ?t scenario_context)) = Replies ?r"
    by (simp add: completion_requests_def no_choices_def ok_def)
  have m: "map_of ?obj (ustr ''choices'') = None" by simp
  from malformed_completion [OF strip_topic s context_scenario k n _ _ m]
  show ?thesis by (simp add: quoted_def)
qed




text \<open>
  C3. In a run of \<^verbatim>\<open>process_topic\<close>, either \<^verbatim>\<open>_call_groq_api\<close> is not called and no
  request goes to the language-model provider, or \<^verbatim>\<open>search_topic\<close> has returned a list
  of results, no completion call of the run was made before it returned, and the
  completion calls that follow are the summary prompt alone or the summary prompt and
  then the post prompt built from the text the first call returned, which that prompt
  contains.
\<close>

theorem stage_order:
  assumes "process_topic env topic tr = (out, tr')"
  shows "(groq_calls tr' = groq_calls tr \<and> completion_requests tr' = completion_requests tr)
       \<or> (\<exists>rs tr1 evs context.
             search_topic env topic (tr @ [Progress 10 (ustr ''Starting search...'')]) = (Inr rs, tr1)
           \<and> tr' = tr1 @ evs
           \<and> groq_calls tr1 = groq_calls tr
           \<and> completion_requests tr1 = completion_requests tr
           \<and> build_context env rs = Inr context
           \<and> (groq_calls evs = [summary_prompt topic context]
              \<or> (\<exists>summary tr2.
                    call_groq_api env (summary_prompt topic context)
                      (tr1 @ [Progress 40 (ustr ''Analyzing search results...'')]) = (Inr summary, tr2)
                  \<and> groq_calls evs = [summary_prompt topic context, post_prompt topic summary]
                  \<and> sublist summary (post_prompt topic summary))))"
proof (cases "py_strip topic = []")
  case True
  with assms have "tr' = tr" by (simp add: process_topic_def)
  then show ?thesis by simp
next
  case False
  let ?p10 = "Progress 10 (ustr ''Starting search...'')"
  let ?p40 = "Progress 40 (ustr ''Analyzing search results...'')"
  obtain sres tr1 where s: "search_topic env topic (tr @ [?p10]) = (sres, tr1)"
    by (cases "search_topic env topic (tr @ [?p10])")
  from search_topic_calls [OF s]
  have k: "groq_calls tr1 = groq_calls tr" "completion_requests tr1 = completion_requests tr"
    by (simp_all add: completion_requests_def)
  show ?thesis
  proof (cases sres)
    case (Inl e)
    with assms False s have "tr' = tr1" by (simp add: process_topic_def)
    with k show ?thesis by simp
  next
    case (Inr rs)
    with s have s': "search_topic env topic (tr @ [?p10]) = (Inr rs, tr1)" by simp
    from search_topic_context [OF s'] obtain ctx where c: "build_context env rs = Inr ctx"
      by blast
    obtain gres tr2 where g: "generate_linkedin_post env topic rs (tr1 @ [?p40]) = (gres, tr2)"
      by (cases "generate_linkedin_post env topic rs (tr1 @ [?p40])")
    from generate_linkedin_post_calls [OF c g] obtain evs
      where e: "tr2 = (tr1 @ [?p40]) @ evs"
        and d: "groq_calls evs = [summary_prompt topic ctx] \<or>
            (\<exists>summary tr3.
               call_groq_api env (summary_prompt topic ctx) (tr1 @ [?p40]) = (Inr summary, tr3) \<and>
               groq_calls evs = [summary_prompt topic ctx, post_prompt topic summary])"
      by blast
    from assms False s' g have "tr' = tr2 \<or> tr' = tr2 @ [Progress 90 (ustr ''Finalizing post...'')]"
      by (cases gres) (auto simp: process_topic_def)
    with e obtain evs' where t: "tr' = tr1 @ evs'" and gc: "groq_calls evs' = groq_calls evs"
      by auto
    from d gc have "groq_calls evs' = [summary_prompt topic ctx] \<or>
            (\<exists>summary tr3.
               call_groq_api env (summary_prompt topic ctx) (tr1 @ [?p40]) = (Inr summary, tr3) \<and>
               groq_calls evs' = [summary_prompt topic ctx, post_prompt topic summary] \<and>
               sublist summary (post_prompt topic summary))"
      by (auto simp: summary_in_post_prompt)
    with s' t k c show ?thesis by blast
  qed
qed

theorem stage_order_witness:
  "groq_calls (snd (process_topic scenario (ustr ''AI trends 2025'') [])) =
     [summary_prompt (ustr ''AI trends 2025'') scenario_context,
      post_prompt (ustr ''AI trends 2025'') (ustr ''AI adoption is accelerating.'')]
   \<and> (\<exists>rs tr1 evs context.
         search_topic scenario (ustr ''AI trends 2025'') ([] @ [Progress 10 (ustr ''Starting search...'')]) = (Inr rs, tr1)
       \<and> snd (process_topic scenario (ustr ''AI trends 2025'') []) = tr1 @ evs
       \<and> groq_calls tr1 = groq_calls []
       \<and> completion_requests tr1 = completion_requests []
       \<and> build_context scenario rs = Inr context
       \<and> (groq_calls evs = [summary_prompt (ustr ''AI trends 2025'') context]
          \<or> (\<exists>summary tr2.
                call_groq_api scenario (summary_prompt (ustr ''AI trends 2025'') context)
                  (tr1 @ [Progress 40 (ustr ''Analyzing search results...'')]) = (Inr summary, tr2)
              \<and> groq_calls evs = [summary_prompt (ustr ''AI trends 2025'') context, post_prompt (ustr ''AI trends 2025'') summary]
              \<and> sublist summary (post_prompt (ustr ''AI trends 2025'') summary))))"
proof -
  have calls: "groq_calls (snd (process_topic scenario (ustr ''AI trends 2025'') [])) =
     [summary_prompt (ustr ''AI trends 2025'') scenario_context,
      post_prompt (ustr ''AI trends 2025'') (ustr ''AI adoption is accelerating.'')]"
    by (simp add: scenario_run)
  then have n: "\<not> (groq_calls (snd (process_topic scenario (ustr ''AI trends 2025'') [])) = groq_calls [] \<and>
            completion_requests (snd (process_topic scenario (ustr ''AI trends 2025'') [])) = completion_requests [])"
    by simp
  have run: "process_topic scenario (ustr ''AI trends 2025'') [] =
      (fst (process_topic scenario (ustr ''AI trends 2025'') []), snd (process_topic scenario (ustr ''AI trends 2025'') []))"
    by simp
  from stage_order [OF run] n calls show ?thesis by blast
qed

end
